theory Spec2Isabelle
  imports Main "HOL-Library.AList" "HOL-Library.Multiset" "HOL-Library.Sublist"
begin

section \<open>The ingestion pipeline of \<^verbatim>\<open>app/services/pubsub_consumer.py\<close>\<close>

text \<open>
  The development embeds \<^verbatim>\<open>PubSubConsumer\<close> of
  \<^verbatim>\<open>src/backend_main/app/services/pubsub_consumer.py\<close>: the two per-message
  callbacks, \<^verbatim>\<open>_process_market_data\<close>, \<^verbatim>\<open>_process_screentime_data\<close>,
  \<^verbatim>\<open>_insert_to_bigquery\<close>, \<^verbatim>\<open>_update_market_cache\<close> and
  \<^verbatim>\<open>_update_screentime_cache\<close>. The BigQuery tables and the Firestore collections
  the class writes are an explicit store that every function takes and returns; every
  \<^verbatim>\<open>logger.error\<close> of an \<^verbatim>\<open>except\<close> branch is an entry of a returned log.
\<close>

subsection \<open>Decoded payloads\<close>

text \<open>
  What \<^verbatim>\<open>json.loads\<close> returns. Python floats are kept abstract (the type
  parameter \<open>'f\<close>); no property below depends on their arithmetic.
\<close>

datatype 'f json =
    JNull
  | JBool bool
  | JInt int
  | JFloat 'f
  | JStr string
  | JArr "'f json list"
  | JObj "(string \<times> 'f json) list"

type_synonym 'f pydict = "(string \<times> 'f json) list"

text \<open>\<^verbatim>\<open>data[k]\<close> on a dict: \<open>None\<close> is the KeyError.\<close>

definition getitem :: "'f pydict \<Rightarrow> string \<Rightarrow> 'f json option" where
  "getitem d k = map_of d k"

text \<open>\<^verbatim>\<open>data.get(k, default)\<close>.\<close>

definition get_default :: "'f pydict \<Rightarrow> string \<Rightarrow> 'f json \<Rightarrow> 'f json" where
  "get_default d k dflt = (case map_of d k of Some v \<Rightarrow> v | None \<Rightarrow> dflt)"

text \<open>
  \<^verbatim>\<open>field in data\<close>: key membership on a dict, element membership on a list,
  substring test on a string, and a TypeError (\<open>None\<close>) on every other value.
\<close>

fun py_contains :: "'f json \<Rightarrow> string \<Rightarrow> bool option" where
  "py_contains (JObj d) k = Some (k \<in> set (map fst d))"
| "py_contains (JArr xs) k = Some (JStr k \<in> set xs)"
| "py_contains (JStr s) k = Some (sublist k s)"
| "py_contains JNull k = None"
| "py_contains (JBool b) k = None"
| "py_contains (JInt i) k = None"
| "py_contains (JFloat x) k = None"

text \<open>
  \<^verbatim>\<open>all(field in data for field in required_fields)\<close>: the generator stops at the
  first field that is not contained; a TypeError of \<^verbatim>\<open>in\<close> leaves it as \<open>None\<close>.
\<close>

fun all_fields_in :: "'f json \<Rightarrow> string list \<Rightarrow> bool option" where
  "all_fields_in data [] = Some True"
| "all_fields_in data (k # ks) =
     (case py_contains data k of
        None \<Rightarrow> None
      | Some present \<Rightarrow> if present then all_fields_in data ks else Some False)"

subsection \<open>What the pipeline takes from outside the repository\<close>

text \<open>
  One entry of the \<^verbatim>\<open>price_history\<close> subcollection of a symbol's document.
\<close>

record 'f hist =
  h_price :: 'f
  h_volume :: "'f json"
  h_timestamp :: "'f json"

text \<open>
  The Python built-ins and the Firestore query engine are parameters: \<open>py_float\<close> and
  \<open>py_int\<close> are \<^verbatim>\<open>float()\<close> and \<^verbatim>\<open>int()\<close> (\<open>None\<close> where they raise
  ValueError or TypeError), \<open>py_str\<close> is the formatting an f-string applies to a value
  that is not a string, \<open>order_by_timestamp\<close> is the order in which the query
  \<^verbatim>\<open>order_by('timestamp')\<close> returns the documents of a collection, and
  \<open>limit_to_last_streams\<close> says whether the client library streams a query built with
  \<^verbatim>\<open>limit_to_last\<close> (a client that refuses raises ValueError inside the
  \<^verbatim>\<open>try\<close> block).
\<close>

record 'f env =
  py_float :: "'f json \<Rightarrow> 'f option"
  py_int :: "'f json \<Rightarrow> int option"
  py_str :: "'f json \<Rightarrow> string"
  order_by_timestamp :: "'f hist list \<Rightarrow> 'f hist list"
  limit_to_last_streams :: bool

text \<open>The text an f-string puts in place of \<^verbatim>\<open>{value}\<close>.\<close>

definition fstr :: "'f env \<Rightarrow> 'f json \<Rightarrow> string" where
  "fstr E v = (case v of JStr s \<Rightarrow> s | _ \<Rightarrow> py_str E v)"

text \<open>
  What \<^verbatim>\<open>insert_rows_json\<close> does on one call: it returns the list of per-row errors
  (empty when every row was stored), or it raises.
\<close>

datatype bq_outcome = BqReturned "nat list" | BqRaised

text \<open>
  The answers of the outside world while one message is handled:
  \<^verbatim>\<open>datetime.utcnow().isoformat()\<close>, the value Firestore writes for
  \<^verbatim>\<open>SERVER_TIMESTAMP\<close>, and the outcome of the BigQuery insert.
\<close>

record world =
  utcnow_iso :: string
  server_timestamp :: nat
  bq_result :: bq_outcome

subsection \<open>The store\<close>

text \<open>The row \<^verbatim>\<open>bq_row\<close> of \<^verbatim>\<open>_process_market_data\<close>.\<close>

record 'f market_row =
  mr_symbol :: "'f json"
  mr_price :: 'f
  mr_volume :: "'f json"
  mr_change :: "'f json"
  mr_change_percent :: "'f json"
  mr_high :: "'f json"
  mr_low :: "'f json"
  mr_open :: "'f json"
  mr_timestamp :: "'f json"
  mr_market :: "'f json"
  mr_processed_at :: string

text \<open>The row \<^verbatim>\<open>bq_row\<close> of \<^verbatim>\<open>_process_screentime_data\<close>.\<close>

record 'f screentime_row =
  sr_user_id :: "'f json"
  sr_app_name :: "'f json"
  sr_category :: "'f json"
  sr_time_spent_minutes :: int
  sr_date :: "'f json"
  sr_device_type :: "'f json"
  sr_processed_at :: string

text \<open>
  A document of \<^verbatim>\<open>market_data\<close>: the nine fields of \<^verbatim>\<open>update_data\<close>, and
  in \<open>md_other\<close> the fields a merging \<^verbatim>\<open>set\<close> leaves alone.
\<close>

record 'f market_doc =
  md_symbol :: string
  current_price :: 'f
  md_volume :: "'f json"
  md_change :: "'f json"
  md_change_percent :: "'f json"
  md_high :: "'f json"
  md_low :: "'f json"
  md_last_updated :: nat
  md_market :: "'f json"
  md_other :: "'f pydict"

text \<open>
  A document of \<^verbatim>\<open>screentime_daily\<close> as this repository writes it: \<open>apps\<close> is
  the dict from app name to \<^verbatim>\<open>{'time_spent', 'category'}\<close>, in insertion order.
\<close>

record 'f app_entry =
  time_spent :: int
  category :: "'f json"

record 'f daily_doc =
  dd_user_id :: "'f json"
  dd_date :: "'f json"
  total_time_minutes :: int
  apps :: "(string \<times> 'f app_entry) list"
  dd_last_updated :: nat

text \<open>
  A document of \<^verbatim>\<open>users\<close>: the two fields the pipeline updates (absent until the
  first update) and, in \<open>profile\<close>, every other field.
\<close>

record 'f user_doc =
  last_screentime_update :: "nat option"
  daily_screentime_minutes :: "int option"
  profile :: "'f pydict"

record 'f store =
  market_table :: "'f market_row list"
  screentime_table :: "'f screentime_row list"
  market_data :: "string \<rightharpoonup> 'f market_doc"
  price_history :: "string \<Rightarrow> 'f hist list"
  screentime_daily :: "string \<rightharpoonup> 'f daily_doc"
  users :: "string \<rightharpoonup> 'f user_doc"

text \<open>One \<^verbatim>\<open>logger.error\<close> call.\<close>

datatype log_entry =
    InvalidFormat
  | ProcessingError
  | BigQueryInsertErrors "nat list"
  | BigQueryInsertError
  | CacheUpdateError

subsection \<open>Archive sink\<close>

text \<open>
  \<^verbatim>\<open>_insert_to_bigquery\<close>. The table is the list of rows stored so far. The call
  passes no row ids and no \<^verbatim>\<open>skip_invalid_rows\<close>, so a call that reports row
  errors stores nothing, and so does a call that raises. The function returns
  \<^verbatim>\<open>None\<close> on every path: what it hands back here is the table and the log only.
\<close>

definition insert_to_bigquery ::
  "bq_outcome \<Rightarrow> 'r list \<Rightarrow> 'r list \<Rightarrow> 'r list \<times> log_entry list" where
  "insert_to_bigquery outcome table rows =
     (case outcome of
        BqRaised \<Rightarrow> (table, [BigQueryInsertError])
      | BqReturned errors \<Rightarrow>
          if errors \<noteq> [] then (table, [BigQueryInsertErrors errors])
          else (table @ rows, []))"

subsection \<open>Cache updater, market stream\<close>

text \<open>
  \<^verbatim>\<open>market_ref.set(update_data, merge=True)\<close>: the nine fields of
  \<^verbatim>\<open>update_data\<close> are written, every other field of an existing document stays.
\<close>

definition set_merge_market ::
  "'f market_doc option \<Rightarrow> 'f market_doc \<Rightarrow> 'f market_doc" where
  "set_merge_market existing update_data =
     (case existing of
        None \<Rightarrow> update_data
      | Some doc \<Rightarrow> update_data\<lparr>md_other := md_other doc\<rparr>)"

text \<open>
  \<^verbatim>\<open>limit_to_last(100)\<close> on an ordered query keeps the last 100 documents of it.
\<close>

definition limit_to_last :: "nat \<Rightarrow> 'a list \<Rightarrow> 'a list" where
  "limit_to_last n docs = drop (length docs - n) docs"

text \<open>\<^verbatim>\<open>batch.delete(doc.reference)\<close> for every document of the list.\<close>

definition batch_delete :: "'a list \<Rightarrow> 'a list \<Rightarrow> 'a list" where
  "batch_delete oldest docs = fold remove1 oldest docs"

text \<open>
  The clean-up at the end of \<^verbatim>\<open>_update_market_cache\<close>: \<^verbatim>\<open>count\<close> is the
  number of documents the query \<^verbatim>\<open>order_by('timestamp').limit_to_last(100)\<close>
  streams, and documents are deleted only when \<^verbatim>\<open>count > 100\<close>. \<open>None\<close> is the
  ValueError of a client that does not stream such a query.
\<close>

definition cleanup_history :: "'f env \<Rightarrow> 'f hist list \<Rightarrow> 'f hist list option" where
  "cleanup_history E docs =
     (if \<not> limit_to_last_streams E then None
      else
        let old_docs = limit_to_last 100 (order_by_timestamp E docs);
            n = length old_docs
        in if n > 100
           then Some (batch_delete (take (n - 100) (order_by_timestamp E docs)) docs)
           else Some docs)"

text \<open>
  The dict \<^verbatim>\<open>update_data\<close> of \<^verbatim>\<open>_update_market_cache\<close>, for a symbol
  that is a string and a price \<open>price\<close> that \<^verbatim>\<open>float\<close> turns into \<open>p\<close>.
\<close>

definition market_update_data ::
  "world \<Rightarrow> ('f::zero) pydict \<Rightarrow> string \<Rightarrow> 'f json \<Rightarrow> 'f \<Rightarrow> 'f market_doc" where
  "market_update_data w data symbol price p = \<lparr>
     md_symbol = symbol,
     current_price = p,
     md_volume = get_default data ''volume'' (JInt 0),
     md_change = get_default data ''change'' (JFloat 0),
     md_change_percent = get_default data ''change_percent'' (JFloat 0),
     md_high = get_default data ''high'' price,
     md_low = get_default data ''low'' price,
     md_last_updated = server_timestamp w,
     md_market = get_default data ''market'' (JStr ''NSE''),
     md_other = []\<rparr>"

text \<open>The dict handed to \<^verbatim>\<open>history_ref.add\<close>.\<close>

definition history_entry :: "'f pydict \<Rightarrow> 'f \<Rightarrow> 'f json \<Rightarrow> 'f hist" where
  "history_entry data p ts = \<lparr>
     h_price = p,
     h_volume = get_default data ''volume'' (JInt 0),
     h_timestamp = ts\<rparr>"

text \<open>
  \<^verbatim>\<open>_update_market_cache\<close>, statement by statement. Each \<open>None\<close> of a lookup or
  of a conversion is the exception that the function's \<^verbatim>\<open>except\<close> logs, with the
  writes made before it kept. \<^verbatim>\<open>document(symbol)\<close> raises for a symbol that is
  not a string.
\<close>

definition update_market_cache ::
  "('f::zero) env \<Rightarrow> world \<Rightarrow> 'f pydict \<Rightarrow> 'f store \<Rightarrow> 'f store \<times> log_entry list" where
  "update_market_cache E w data st =
     (case getitem data ''symbol'' of
        None \<Rightarrow> (st, [CacheUpdateError])
      | Some symv \<Rightarrow>
     (case symv of
        JStr symbol \<Rightarrow>
          (case getitem data ''price'' of
             None \<Rightarrow> (st, [CacheUpdateError])
           | Some price \<Rightarrow>
          (case py_float E price of
             None \<Rightarrow> (st, [CacheUpdateError])
           | Some p \<Rightarrow>
               let update_data = market_update_data w data symbol price p;
                   st1 = st\<lparr>market_data := (market_data st)
                           (symbol \<mapsto> set_merge_market (market_data st symbol) update_data)\<rparr>
               in
               (case getitem data ''timestamp'' of
                  None \<Rightarrow> (st1, [CacheUpdateError])
                | Some ts \<Rightarrow>
                    let added = price_history st1 symbol @ [history_entry data p ts];
                        st2 = st1\<lparr>price_history := (price_history st1)(symbol := added)\<rparr>
                    in
                    (case cleanup_history E added of
                       None \<Rightarrow> (st2, [CacheUpdateError])
                     | Some kept \<Rightarrow>
                         (st2\<lparr>price_history := (price_history st2)(symbol := kept)\<rparr>, [])))))
      | _ \<Rightarrow> (st, [CacheUpdateError])))"

subsection \<open>Processing a market event\<close>

text \<open>
  The dict \<^verbatim>\<open>bq_row\<close> of \<^verbatim>\<open>_process_market_data\<close>, for the values of
  \<^verbatim>\<open>symbol\<close>, \<^verbatim>\<open>price\<close> (which \<^verbatim>\<open>float\<close> turns into \<open>p\<close>) and
  \<^verbatim>\<open>timestamp\<close>.
\<close>

definition market_bq_row ::
  "world \<Rightarrow> ('f::zero) pydict \<Rightarrow> 'f json \<Rightarrow> 'f json \<Rightarrow> 'f \<Rightarrow> 'f json \<Rightarrow> 'f market_row" where
  "market_bq_row w data symv price p ts = \<lparr>
     mr_symbol = symv,
     mr_price = p,
     mr_volume = get_default data ''volume'' (JInt 0),
     mr_change = get_default data ''change'' (JFloat 0),
     mr_change_percent = get_default data ''change_percent'' (JFloat 0),
     mr_high = get_default data ''high'' price,
     mr_low = get_default data ''low'' price,
     mr_open = get_default data ''open'' price,
     mr_timestamp = ts,
     mr_market = get_default data ''market'' (JStr ''NSE''),
     mr_processed_at = utcnow_iso w\<rparr>"

definition market_required_fields :: "string list" where
  "market_required_fields = [''symbol'', ''price'', ''timestamp'']"

text \<open>
  \<^verbatim>\<open>_process_market_data\<close>. A payload that is no dict either fails the field test,
  or makes \<^verbatim>\<open>in\<close> or \<^verbatim>\<open>data['symbol']\<close> raise; all three return before the
  first sink. On a dict, the row is built (only \<^verbatim>\<open>float(data['price'])\<close> can
  raise there), handed to the archive sink, and then the cache updater runs whatever the
  archive sink logged: neither sink raises to its caller.
\<close>

definition process_market_data ::
  "('f::zero) env \<Rightarrow> world \<Rightarrow> 'f json \<Rightarrow> 'f store \<Rightarrow> 'f store \<times> log_entry list" where
  "process_market_data E w payload st =
     (case all_fields_in payload market_required_fields of
        None \<Rightarrow> (st, [ProcessingError])
      | Some present \<Rightarrow>
     if \<not> present then (st, [InvalidFormat])
     else
     (case payload of
        JObj data \<Rightarrow>
          (case (getitem data ''symbol'', getitem data ''price'', getitem data ''timestamp'') of
             (Some symv, Some price, Some ts) \<Rightarrow>
               (case py_float E price of
                  None \<Rightarrow> (st, [ProcessingError])
                | Some p \<Rightarrow>
                    let bq_row = market_bq_row w data symv price p ts;
                        (table, log1) = insert_to_bigquery (bq_result w) (market_table st) [bq_row];
                        (st2, log2) = update_market_cache E w data (st\<lparr>market_table := table\<rparr>)
                    in (st2, log1 @ log2))
           | _ \<Rightarrow> (st, [ProcessingError]))
      | _ \<Rightarrow> (st, [ProcessingError])))"

subsection \<open>Cache updater, screen-time stream\<close>

text \<open>
  \<^verbatim>\<open>sum(app['time_spent'] for app in apps_data.values())\<close>.
\<close>

definition total_time_of :: "(string \<times> 'f app_entry) list \<Rightarrow> int" where
  "total_time_of apps_data = sum_list (map (\<lambda>kv. time_spent (snd kv)) apps_data)"

text \<open>
  The \<^verbatim>\<open>if app_name in apps_data\<close> statement: an app that is there gets the
  minutes added to its \<^verbatim>\<open>time_spent\<close> (its category stays), a new app is stored
  with the minutes and the event's category.
\<close>

definition add_app_time ::
  "string \<Rightarrow> int \<Rightarrow> 'f json \<Rightarrow> (string \<times> 'f app_entry) list \<Rightarrow> (string \<times> 'f app_entry) list" where
  "add_app_time app_name minutes cat apps_data =
     (case map_of apps_data app_name of
        Some entry \<Rightarrow>
          AList.update app_name (entry\<lparr>time_spent := time_spent entry + minutes\<rparr>) apps_data
      | None \<Rightarrow>
          AList.update app_name \<lparr>time_spent = minutes, category = cat\<rparr> apps_data)"

text \<open>
  \<^verbatim>\<open>_update_screentime_cache\<close>. The daily document is read, changed and written
  back with a merging \<^verbatim>\<open>set\<close> that gives all five of its fields; then
  \<^verbatim>\<open>users/{user_id}\<close> is changed with \<^verbatim>\<open>update\<close>, which raises when
  \<^verbatim>\<open>user_id\<close> is no string (no document path) or when the document does not
  exist. An app name that is not a string reaches no write: it is unhashable, or it is
  refused as a map key by \<^verbatim>\<open>set\<close>.
\<close>

definition update_screentime_cache ::
  "'f env \<Rightarrow> world \<Rightarrow> 'f pydict \<Rightarrow> 'f store \<Rightarrow> 'f store \<times> log_entry list" where
  "update_screentime_cache E w data st =
     (case (getitem data ''user_id'', getitem data ''date'') of
        (Some user_id, Some date) \<Rightarrow>
          let doc_id = fstr E user_id @ ''_'' @ fstr E date;
              apps_data = (case screentime_daily st doc_id of
                             Some doc \<Rightarrow> apps doc
                           | None \<Rightarrow> [])
          in
          (case getitem data ''app_name'' of
             Some (JStr app_name) \<Rightarrow>
               (case getitem data ''time_spent'' of
                  None \<Rightarrow> (st, [CacheUpdateError])
                | Some spent \<Rightarrow>
               (case py_int E spent of
                  None \<Rightarrow> (st, [CacheUpdateError])
                | Some minutes \<Rightarrow>
                    let apps_data2 = add_app_time app_name minutes
                          (get_default data ''category'' (JStr ''Other'')) apps_data;
                        total_time = total_time_of apps_data2;
                        st1 = st\<lparr>screentime_daily := (screentime_daily st)(doc_id \<mapsto> \<lparr>
                                dd_user_id = user_id,
                                dd_date = date,
                                total_time_minutes = total_time,
                                apps = apps_data2,
                                dd_last_updated = server_timestamp w\<rparr>)\<rparr>
                    in
                    (case user_id of
                       JStr uid \<Rightarrow>
                         (case users st1 uid of
                            None \<Rightarrow> (st1, [CacheUpdateError])
                          | Some u \<Rightarrow>
                              (st1\<lparr>users := (users st1)(uid \<mapsto> u\<lparr>
                                 last_screentime_update := Some (server_timestamp w),
                                 daily_screentime_minutes := Some total_time\<rparr>)\<rparr>, []))
                     | _ \<Rightarrow> (st1, [CacheUpdateError]))))
           | _ \<Rightarrow> (st, [CacheUpdateError]))
      | _ \<Rightarrow> (st, [CacheUpdateError]))"

subsection \<open>Processing a screen-time event\<close>

text \<open>
  The dict \<^verbatim>\<open>bq_row\<close> of \<^verbatim>\<open>_process_screentime_data\<close>, for the values of
  \<^verbatim>\<open>user_id\<close>, \<^verbatim>\<open>app_name\<close>, \<^verbatim>\<open>int(data['time_spent'])\<close> and
  \<^verbatim>\<open>date\<close>.
\<close>

definition screentime_bq_row ::
  "world \<Rightarrow> 'f pydict \<Rightarrow> 'f json \<Rightarrow> 'f json \<Rightarrow> int \<Rightarrow> 'f json \<Rightarrow> 'f screentime_row" where
  "screentime_bq_row w data user_id app_name minutes date = \<lparr>
     sr_user_id = user_id,
     sr_app_name = app_name,
     sr_category = get_default data ''category'' (JStr ''Other''),
     sr_time_spent_minutes = minutes,
     sr_date = date,
     sr_device_type = get_default data ''device_type'' (JStr ''mobile''),
     sr_processed_at = utcnow_iso w\<rparr>"

definition screentime_required_fields :: "string list" where
  "screentime_required_fields = [''user_id'', ''app_name'', ''time_spent'', ''date'']"

text \<open>
  \<^verbatim>\<open>_process_screentime_data\<close>: the field test, the row (only
  \<^verbatim>\<open>int(data['time_spent'])\<close> can raise there), the archive sink, the cache
  updater. The value of \<^verbatim>\<open>date\<close> is copied, never parsed.
\<close>

definition process_screentime_data ::
  "'f env \<Rightarrow> world \<Rightarrow> 'f json \<Rightarrow> 'f store \<Rightarrow> 'f store \<times> log_entry list" where
  "process_screentime_data E w payload st =
     (case all_fields_in payload screentime_required_fields of
        None \<Rightarrow> (st, [ProcessingError])
      | Some present \<Rightarrow>
     if \<not> present then (st, [InvalidFormat])
     else
     (case payload of
        JObj data \<Rightarrow>
          (case (getitem data ''user_id'', getitem data ''app_name'',
                 getitem data ''time_spent'', getitem data ''date'') of
             (Some user_id, Some app_name, Some spent, Some date) \<Rightarrow>
               (case py_int E spent of
                  None \<Rightarrow> (st, [ProcessingError])
                | Some minutes \<Rightarrow>
                    let bq_row = screentime_bq_row w data user_id app_name minutes date;
                        (table, log1) =
                          insert_to_bigquery (bq_result w) (screentime_table st) [bq_row];
                        (st2, log2) =
                          update_screentime_cache E w data (st\<lparr>screentime_table := table\<rparr>)
                    in (st2, log1 @ log2))
           | _ \<Rightarrow> (st, [ProcessingError]))
      | _ \<Rightarrow> (st, [ProcessingError])))"

subsection \<open>Consumer callbacks\<close>

datatype ack = Ack | Nack

datatype 'f task = MarketTask "'f json" | ScreentimeTask "'f json"

text \<open>
  The \<^verbatim>\<open>callback\<close> of \<^verbatim>\<open>_consume_market_data\<close>. The message is given by
  what \<^verbatim>\<open>json.loads(message.data.decode('utf-8'))\<close> returns, \<open>None\<close> when the
  decoding or the parsing raises. \<open>loop_running\<close> is whether
  \<^verbatim>\<open>asyncio.create_task\<close> finds a running event loop; without one it raises. The
  callback returns the answer it gives the broker and the task it scheduled: the task
  runs later, the answer is given at once.
\<close>

definition market_callback :: "bool \<Rightarrow> 'f json option \<Rightarrow> ack \<times> 'f task option" where
  "market_callback loop_running message =
     (case message of
        None \<Rightarrow> (Nack, None)
      | Some data \<Rightarrow>
          if loop_running then (Ack, Some (MarketTask data)) else (Nack, None))"

text \<open>The \<^verbatim>\<open>callback\<close> of \<^verbatim>\<open>_consume_screentime_data\<close>.\<close>

definition screentime_callback :: "bool \<Rightarrow> 'f json option \<Rightarrow> ack \<times> 'f task option" where
  "screentime_callback loop_running message =
     (case message of
        None \<Rightarrow> (Nack, None)
      | Some data \<Rightarrow>
          if loop_running then (Ack, Some (ScreentimeTask data)) else (Nack, None))"

text \<open>Running a scheduled task to its end.\<close>

definition run_task ::
  "('f::zero) env \<Rightarrow> world \<Rightarrow> 'f task \<Rightarrow> 'f store \<Rightarrow> 'f store \<times> log_entry list" where
  "run_task E w t st =
     (case t of
        MarketTask data \<Rightarrow> process_market_data E w data st
      | ScreentimeTask data \<Rightarrow> process_screentime_data E w data st)"

text \<open>
  One message of a stream from delivery to the end of its task: the answer to the
  broker, the store afterwards and what was logged.
\<close>

definition deliver_market ::
  "('f::zero) env \<Rightarrow> world \<Rightarrow> bool \<Rightarrow> 'f json option \<Rightarrow> 'f store
     \<Rightarrow> ack \<times> 'f store \<times> log_entry list" where
  "deliver_market E w loop_running message st =
     (case market_callback loop_running message of
        (answer, None) \<Rightarrow> (answer, st, [])
      | (answer, Some t) \<Rightarrow> (answer, run_task E w t st))"

definition deliver_screentime ::
  "('f::zero) env \<Rightarrow> world \<Rightarrow> bool \<Rightarrow> 'f json option \<Rightarrow> 'f store
     \<Rightarrow> ack \<times> 'f store \<times> log_entry list" where
  "deliver_screentime E w loop_running message st =
     (case screentime_callback loop_running message of
        (answer, None) \<Rightarrow> (answer, st, [])
      | (answer, Some t) \<Rightarrow> (answer, run_task E w t st))"

text \<open>
  A run of market events whose payloads are dicts, processed one after the other, each
  with the world's answers for it.
\<close>

fun process_market_all ::
  "('f::zero) env \<Rightarrow> (world \<times> 'f pydict) list \<Rightarrow> 'f store \<Rightarrow> 'f store" where
  "process_market_all E [] st = st"
| "process_market_all E (wd # rest) st =
     process_market_all E rest (fst (process_market_data E (fst wd) (JObj (snd wd)) st))"

subsection \<open>What a market event writes, for stating properties\<close>

text \<open>
  The history entry and the \<^verbatim>\<open>update_data\<close> that \<^verbatim>\<open>_update_market_cache\<close>
  builds from an event, \<open>None\<close> where the event has no price that converts or no
  timestamp; and the events for which the cache of symbol \<open>s\<close> is written in full.
\<close>

definition tick_entry :: "'f env \<Rightarrow> 'f pydict \<Rightarrow> 'f hist option" where
  "tick_entry E data =
     (case (getitem data ''price'', getitem data ''timestamp'') of
        (Some price, Some ts) \<Rightarrow>
          (case py_float E price of
             Some p \<Rightarrow> Some (history_entry data p ts)
           | None \<Rightarrow> None)
      | _ \<Rightarrow> None)"

definition tick_doc :: "('f::zero) env \<Rightarrow> world \<Rightarrow> string \<Rightarrow> 'f pydict \<Rightarrow> 'f market_doc option" where
  "tick_doc E w s data =
     (case getitem data ''price'' of
        Some price \<Rightarrow>
          (case py_float E price of
             Some p \<Rightarrow> Some (market_update_data w data s price p)
           | None \<Rightarrow> None)
      | None \<Rightarrow> None)"

definition valid_tick :: "'f env \<Rightarrow> string \<Rightarrow> 'f pydict \<Rightarrow> bool" where
  "valid_tick E s data =
     (getitem data ''symbol'' = Some (JStr s) \<and> tick_entry E data \<noteq> None)"

text \<open>The fields of a symbol's document that a merging \<^verbatim>\<open>set\<close> leaves alone.\<close>

definition other_fields :: "'f store \<Rightarrow> string \<Rightarrow> 'f pydict" where
  "other_fields st s = (case market_data st s of None \<Rightarrow> [] | Some doc \<Rightarrow> md_other doc)"

subsection \<open>Concrete values for the examples\<close>

text \<open>
  An environment whose conversions accept integers only, and whose ordered query returns
  the documents in insertion order.
\<close>

definition example_env :: "int env" where
  "example_env = \<lparr>
     py_float = (\<lambda>v. case v of JInt i \<Rightarrow> Some i | _ \<Rightarrow> None),
     py_int = (\<lambda>v. case v of JInt i \<Rightarrow> Some i | _ \<Rightarrow> None),
     py_str = (\<lambda>v. ''?''),
     order_by_timestamp = (\<lambda>docs. docs),
     limit_to_last_streams = True\<rparr>"

definition example_world :: world where
  "example_world = \<lparr>utcnow_iso = ''2024-01-01T00:00:00'', server_timestamp = 7,
     bq_result = BqReturned []\<rparr>"

definition empty_store :: "int store" where
  "empty_store = \<lparr>market_table = [], screentime_table = [], market_data = Map.empty,
     price_history = (\<lambda>s. []), screentime_daily = Map.empty, users = Map.empty\<rparr>"

definition tick_payload :: "int json" where
  "tick_payload = JObj [(''symbol'', JStr ''ACME''), (''price'', JInt 10),
     (''timestamp'', JStr ''2024-01-01T10:00:00'')]"

definition usage_payload :: "int json" where
  "usage_payload = JObj [(''user_id'', JStr ''u1''), (''app_name'', JStr ''Chrome''),
     (''time_spent'', JInt 10), (''date'', JStr ''2024-01-01'')]"

definition bad_date_payload :: "int json" where
  "bad_date_payload = JObj [(''user_id'', JStr ''u1''), (''app_name'', JStr ''Chrome''),
     (''time_spent'', JInt 5), (''date'', JStr ''not-a-date'')]"

text \<open>
  The \<open>i\<close>-th of a sequence of ticks for one symbol, with price and timestamp \<open>i\<close>; and
  two ticks of which the one with the later timestamp has the price 20.
\<close>

definition sequential_tick :: "nat \<Rightarrow> world \<times> int pydict" where
  "sequential_tick i = (example_world,
     [(''symbol'', JStr ''ACME''), (''price'', JInt (int i)), (''timestamp'', JInt (int i))])"

definition late_tick :: "world \<times> int pydict" where
  "late_tick = (example_world,
     [(''symbol'', JStr ''ACME''), (''price'', JInt 20), (''timestamp'', JStr ''2024-01-02T10:00:00'')])"

definition early_tick :: "world \<times> int pydict" where
  "early_tick = (example_world,
     [(''symbol'', JStr ''ACME''), (''price'', JInt 10), (''timestamp'', JStr ''2024-01-01T10:00:00'')])"

definition chrome_usage :: "int \<Rightarrow> int pydict" where
  "chrome_usage m = [(''user_id'', JStr ''u1''), (''app_name'', JStr ''Chrome''),
     (''time_spent'', JInt m), (''date'', JStr ''2024-01-01'')]"

definition store_with_user :: "int store" where
  "store_with_user = empty_store\<lparr>users := [''u1'' \<mapsto>
     \<lparr>last_screentime_update = Some 3, daily_screentime_minutes = Some 999, profile = []\<rparr>]\<rparr>"



lemmas model_defs =
  process_market_data_def process_screentime_data_def update_market_cache_def
  update_screentime_cache_def insert_to_bigquery_def cleanup_history_def limit_to_last_def
  batch_delete_def market_required_fields_def screentime_required_fields_def
  getitem_def get_default_def fstr_def set_merge_market_def add_app_time_def total_time_of_def
  deliver_market_def deliver_screentime_def market_callback_def screentime_callback_def
  run_task_def market_bq_row_def screentime_bq_row_def market_update_data_def history_entry_def

lemmas example_defs =
  example_env_def example_world_def empty_store_def tick_payload_def usage_payload_def
  bad_date_payload_def chrome_usage_def store_with_user_def sequential_tick_def late_tick_def
  early_tick_def

section \<open>Properties\<close>

subsection \<open>Shared facts\<close>

lemma all_fields_in_obj:
  "all_fields_in (JObj d) ks = Some (list_all (\<lambda>k. k \<in> set (map fst d)) ks)"
  by (induction ks) auto

lemma getitem_key: "getitem d k = Some v \<Longrightarrow> k \<in> fst ` set d"
  by (auto simp: getitem_def dest!: map_of_SomeD intro: rev_image_eqI)

text \<open>The cache updaters neither read nor write the archive tables.\<close>

lemma update_market_cache_table:
  "update_market_cache E w d (st\<lparr>market_table := t\<rparr>)
     = apfst (\<lambda>s. s\<lparr>market_table := t\<rparr>) (update_market_cache E w d st)"
  by (simp add: update_market_cache_def Let_def split: option.splits json.splits)




lemma update_screentime_cache_world:
  "update_screentime_cache E (w\<lparr>bq_result := b\<rparr>) d st = update_screentime_cache E w d st"
  by (simp add: update_screentime_cache_def Let_def split: option.splits json.splits)


lemma screentime_bq_row_world:
  "screentime_bq_row (w\<lparr>bq_result := b\<rparr>) = screentime_bq_row w"
  by (simp add: screentime_bq_row_def fun_eq_iff)

text \<open>
  A payload that passes the field test and the conversion: the row goes to the archive
  sink and the cache updater runs on the cache as it was.
\<close>

lemma process_market_data_valid:
  assumes "getitem data ''symbol'' = Some symv" "getitem data ''price'' = Some price"
    "getitem data ''timestamp'' = Some ts" "py_float E price = Some p"
  shows "process_market_data E w (JObj data) st =
     (let (table, log1) = insert_to_bigquery (bq_result w) (market_table st)
                             [market_bq_row w data symv price p ts];
          (st2, log2) = update_market_cache E w data st
      in (st2\<lparr>market_table := table\<rparr>, log1 @ log2))"
proof -
  have "list_all (\<lambda>k. k \<in> set (map fst data)) market_required_fields"
    using assms(1-3) by (simp add: market_required_fields_def getitem_key)
  then show ?thesis
    using assms
    by (simp add: process_market_data_def all_fields_in_obj update_market_cache_table
          split: prod.splits)
qed


subsection \<open>Rejection of malformed market events\<close>

text \<open>
  Claim C2. A market event whose decoded payload lacks \<^verbatim>\<open>symbol\<close>,
  \<^verbatim>\<open>price\<close> or \<^verbatim>\<open>timestamp\<close> is rejected before any sink write:
  \<^verbatim>\<open>_process_market_data\<close> logs the invalid format and returns the store as it
  was (no archive row, no cache document touched), and so the store is unchanged after
  the whole delivery of the message.
\<close>

theorem market_missing_field_rejected:
  assumes "''symbol'' \<notin> set (map fst data) \<or> ''price'' \<notin> set (map fst data)
           \<or> ''timestamp'' \<notin> set (map fst data)"
  shows "process_market_data E w (JObj data) st = (st, [InvalidFormat])
       \<and> fst (snd (deliver_market E w loop_running (Some (JObj data)) st)) = st"
  using assms
  by (auto simp: process_market_data_def all_fields_in_obj market_required_fields_def
       deliver_market_def market_callback_def run_task_def)

theorem market_missing_field_rejected_witness:
  "''price'' \<notin> set (map fst [(''symbol'', JStr ''ACME''), (''timestamp'', JStr ''t1'')])
   \<and> process_market_data example_env example_world
        (JObj [(''symbol'', JStr ''ACME''), (''timestamp'', JStr ''t1'')]) empty_store
      = (empty_store, [InvalidFormat])"
  using market_missing_field_rejected
    [where data = "[(''symbol'', JStr ''ACME''), (''timestamp'', JStr ''t1'')]"
       and E = example_env and w = example_world and st = empty_store]
  by simp

subsection \<open>When a message is acknowledged\<close>



subsection \<open>Redelivery and the archive\<close>




subsection \<open>Row errors of the archive insert\<close>






subsection \<open>Screen-time events with a date that is no date\<close>

text \<open>
  Claim C3 asks that a screen-time event whose \<^verbatim>\<open>date\<close> does not parse as
  YYYY-MM-DD is rejected before any sink write. \<^verbatim>\<open>_process_screentime_data\<close> tests
  the presence of the four fields only: an event with the date \<^verbatim>\<open>not-a-date\<close> is
  archived, and a daily document is written under the key made from that text.
\<close>

theorem unparsable_date_reaches_both_sinks:
  "map sr_date (screentime_table (fst (process_screentime_data example_env example_world
       bad_date_payload empty_store))) = [JStr ''not-a-date'']
   \<and> map_option total_time_minutes (screentime_daily (fst (process_screentime_data example_env
       example_world bad_date_payload empty_store)) ''u1_not-a-date'') = Some 5"
  by (simp add: model_defs example_defs bad_date_payload_def)

subsection \<open>Screen-time merge\<close>






subsection \<open>The second document written by a screen-time merge\<close>

text \<open>
  Claim C10. A screen-time cache merge that ends without an error has written, besides
  the daily document, the document \<^verbatim>\<open>users/{user_id}\<close>: its
  \<^verbatim>\<open>daily_screentime_minutes\<close> is the total just computed for the merged date,
  whatever value it held before, and its \<^verbatim>\<open>last_screentime_update\<close> is the server
  timestamp; its other fields are as they were. In the witness the value 999 left by
  an earlier update is replaced by the day's total 10.
\<close>

theorem screentime_merge_updates_user_doc:
  assumes "update_screentime_cache E w data st = (st', [])"
  shows "\<exists>uid date u doc.
           getitem data ''user_id'' = Some (JStr uid) \<and> getitem data ''date'' = Some date
         \<and> users st uid = Some u
         \<and> screentime_daily st' (uid @ ''_'' @ fstr E date) = Some doc
         \<and> users st' uid = Some (u\<lparr>last_screentime_update := Some (server_timestamp w),
                                      daily_screentime_minutes := Some (total_time_minutes doc)\<rparr>)"
  using assms
  by (auto simp: update_screentime_cache_def Let_def fstr_def split: option.splits json.splits)

theorem screentime_merge_updates_user_doc_witness:
  "update_screentime_cache example_env example_world (chrome_usage 10) store_with_user
     = (fst (update_screentime_cache example_env example_world (chrome_usage 10) store_with_user), [])
   \<and> users (fst (update_screentime_cache example_env example_world (chrome_usage 10) store_with_user)) ''u1''
     = Some \<lparr>last_screentime_update = Some 7, daily_screentime_minutes = Some 10, profile = []\<rparr>"
  using screentime_merge_updates_user_doc
    [where E = example_env and w = example_world and data = "chrome_usage 10"
       and st = store_with_user
       and st' = "fst (update_screentime_cache example_env example_world (chrome_usage 10) store_with_user)"]
  by (simp add: model_defs example_defs chrome_usage_def store_with_user_def)

subsection \<open>Market cache: what a run of ticks leaves\<close>

text \<open>
  The query whose documents the clean-up counts is limited to 100 documents, so the
  count never exceeds 100 and the clean-up deletes nothing: where it returns at all, it
  returns the history it was given.
\<close>

lemma limit_to_last_length: "length (limit_to_last n docs) \<le> n"
  by (simp add: limit_to_last_def)

lemma cleanup_history_keeps: "cleanup_history E docs = Some kept \<Longrightarrow> kept = docs"
  using limit_to_last_length [of 100 "order_by_timestamp E docs"]
  by (auto simp: cleanup_history_def Let_def split: if_splits)

lemma valid_tickE:
  assumes "valid_tick E s data"
  obtains price p ts where "getitem data ''symbol'' = Some (JStr s)"
    "getitem data ''price'' = Some price" "py_float E price = Some p"
    "getitem data ''timestamp'' = Some ts"
    "tick_entry E data = Some (history_entry data p ts)"
    "tick_doc E w s data = Some (market_update_data w data s price p)"
  using assms
  by (auto simp: valid_tick_def tick_entry_def tick_doc_def split: option.splits)

lemma update_market_cache_valid:
  assumes "valid_tick E s data"
  shows "price_history (fst (update_market_cache E w data st)) s
           = price_history st s @ [the (tick_entry E data)]"
    and "market_data (fst (update_market_cache E w data st)) s
           = map_option (\<lambda>doc. doc\<lparr>md_other := other_fields st s\<rparr>) (tick_doc E w s data)"
proof -
  from assms obtain price p ts where v: "getitem data ''symbol'' = Some (JStr s)"
    "getitem data ''price'' = Some price" "py_float E price = Some p"
    "getitem data ''timestamp'' = Some ts"
    "tick_entry E data = Some (history_entry data p ts)"
    "tick_doc E w s data = Some (market_update_data w data s price p)"
    by (rule valid_tickE)
  show "price_history (fst (update_market_cache E w data st)) s
           = price_history st s @ [the (tick_entry E data)]"
    using v by (auto simp: update_market_cache_def Let_def split: option.splits
        dest: cleanup_history_keeps)
  show "market_data (fst (update_market_cache E w data st)) s
           = map_option (\<lambda>doc. doc\<lparr>md_other := other_fields st s\<rparr>) (tick_doc E w s data)"
    using v by (auto simp: update_market_cache_def Let_def other_fields_def set_merge_market_def
        market_update_data_def split: option.splits)
qed

lemma process_market_data_tick:
  assumes "valid_tick E s data"
  shows "price_history (fst (process_market_data E w (JObj data) st)) s
           = price_history st s @ [the (tick_entry E data)]"
    and "market_data (fst (process_market_data E w (JObj data) st)) s
           = map_option (\<lambda>doc. doc\<lparr>md_other := other_fields st s\<rparr>) (tick_doc E w s data)"
proof -
  from assms obtain price p ts where v: "getitem data ''symbol'' = Some (JStr s)"
    "getitem data ''price'' = Some price" "py_float E price = Some p"
    "getitem data ''timestamp'' = Some ts"
    by (rule valid_tickE)
  have eq: "process_market_data E w (JObj data) st =
     (let (table, log1) = insert_to_bigquery (bq_result w) (market_table st)
                             [market_bq_row w data (JStr s) price p ts];
          (st2, log2) = update_market_cache E w data st
      in (st2\<lparr>market_table := table\<rparr>, log1 @ log2))"
    using v by (intro process_market_data_valid)
  show "price_history (fst (process_market_data E w (JObj data) st)) s
           = price_history st s @ [the (tick_entry E data)]"
    using update_market_cache_valid(1) [OF assms, of w st]
    by (simp add: eq case_prod_beta)
  show "market_data (fst (process_market_data E w (JObj data) st)) s
           = map_option (\<lambda>doc. doc\<lparr>md_other := other_fields st s\<rparr>) (tick_doc E w s data)"
    using update_market_cache_valid(2) [OF assms, of w st]
    by (simp add: eq case_prod_beta)
qed


lemma process_market_all_history:
  "list_all (\<lambda>wd. valid_tick E s (snd wd)) wds \<Longrightarrow>
     price_history (process_market_all E wds st) s
       = price_history st s @ map (\<lambda>wd. the (tick_entry E (snd wd))) wds"
  by (induction wds arbitrary: st) (simp_all add: process_market_data_tick(1))





lemma sequential_ticks_valid:
  "list_all (\<lambda>wd. valid_tick example_env ''ACME'' (snd wd)) (map sequential_tick [0..<n])"
  by (simp add: list_all_iff valid_tick_def tick_entry_def sequential_tick_def getitem_def
        example_env_def)

subsection \<open>History retention\<close>

text \<open>
  Claim C5 asks that the history of a symbol holds at most the most recent 100 entries,
  and that 150 sequential ticks leave exactly the last 100. In the code, 150 sequential
  ticks for one symbol leave 150 entries, the oldest one (timestamp 0) still the first:
  \<^verbatim>\<open>count\<close> is taken from a query limited to 100 documents, so the test
  \<^verbatim>\<open>count > 100\<close> of the clean-up never holds.
\<close>

theorem history_not_trimmed_after_150_ticks:
  "length (price_history
     (process_market_all example_env (map sequential_tick [0..<150]) empty_store) ''ACME'') = 150
   \<and> h_timestamp (hd (price_history
     (process_market_all example_env (map sequential_tick [0..<150]) empty_store) ''ACME''))
       = JInt 0"
proof -
  have "price_history
     (process_market_all example_env (map sequential_tick [0..<150]) empty_store) ''ACME''
     = map (\<lambda>wd. the (tick_entry example_env (snd wd))) (map sequential_tick [0..<150])"
    using process_market_all_history [OF sequential_ticks_valid, of 150 empty_store]
    by (simp add: empty_store_def)
  then show ?thesis
    by (simp add: hd_map tick_entry_def sequential_tick_def getitem_def example_env_def
          history_entry_def)
qed

subsection \<open>Order of market events\<close>




end
